theory Spec2Isabelle
  imports Main "HOL-Library.Sublist"
begin

section \<open>The target facade of avatar2 (src/avatar2/targets/target.py)\<close>

text \<open>
  The module defines the enumeration \<open>TargetStates\<close>, the decorator factory
  \<open>action_valid_decorator_factory\<close> and the class \<open>Target\<close>. The class holds the
  current state, a status dictionary, six protocol slots and a
  \<open>threading.Event\<close>; its methods either guard and forward a request to an
  attached protocol object, or maintain the state and the event.

  The protocol objects and the logger are collaborators outside the module.
  A protocol object is a value of an arbitrary type \<open>'p\<close>; what its methods
  answer is given by a function \<open>B\<close> that sees the target as it is at the
  moment of the call and threads a state \<open>'b\<close> of its own. Every method call
  the facade makes on a protocol object is appended to \<open>calls\<close>, every line it
  hands to the logger to \<open>log_lines\<close>.
\<close>

subsection \<open>Values, exceptions and the enumeration\<close>

datatype TargetStates = CREATED | INITIALIZED | STOPPED | RUNNING | SYNCHING | EXITED

text \<open>\<open>TargetStates(s).name\<close>, the member's name.\<close>

fun TargetStates_name :: "TargetStates \<Rightarrow> string" where
  "TargetStates_name CREATED = ''CREATED''"
| "TargetStates_name INITIALIZED = ''INITIALIZED''"
| "TargetStates_name STOPPED = ''STOPPED''"
| "TargetStates_name RUNNING = ''RUNNING''"
| "TargetStates_name SYNCHING = ''SYNCHING''"
| "TargetStates_name EXITED = ''EXITED''"

text \<open>\<open>"%s" % TargetStates(s)\<close>, the member's \<open>str\<close>.\<close>

definition TargetStates_str :: "TargetStates \<Rightarrow> string" where
  "TargetStates_str s = ''TargetStates.'' @ TargetStates_name s"

text \<open>Python values that travel through the facade as arguments, results and status entries.\<close>

datatype val = None_val | Bool_val bool | Int_val int | Str_val string
  | List_val "val list" | State_val TargetStates

text \<open>
  Exceptions: \<open>Exception msg\<close> is what the guard raises; \<open>AttributeError m\<close> is a
  method \<open>m\<close> looked up on \<open>None\<close>; \<open>Protocol_error\<close> stands for any other exception
  object a protocol method raises.
\<close>

datatype exn = Exception string | AttributeError string | Protocol_error string

subsection \<open>The target and its surroundings\<close>

text \<open>
  The fields of \<open>Target.__init__\<close>, the leading underscore dropped. The handles
  \<open>avatar\<close>, \<open>_arch\<close> and \<open>log\<close> point outside the module and are not fields here.
\<close>

record 'p Target =
  state :: TargetStates
  name :: string
  status :: "string \<rightharpoonup> val"
  exec_protocol :: "'p option"
  memory_protocol :: "'p option"
  register_protocol :: "'p option"
  signal_protocol :: "'p option"
  monitor_protocol :: "'p option"
  remote_memory_protocol :: "'p option"
  no_state_update_pending :: bool

definition Target_init :: "string \<Rightarrow> 'p Target" where
  "Target_init nm =
     \<lparr>state = CREATED, name = nm, status = Map.empty,
      exec_protocol = None, memory_protocol = None, register_protocol = None,
      signal_protocol = None, monitor_protocol = None, remote_memory_protocol = None,
      no_state_update_pending = False\<rparr>"

text \<open>The attribute names handed to the decorator factory, and \<open>getattr\<close>/\<open>setattr\<close> on them.\<close>

datatype protocol_attr = Exec_protocol | Memory_protocol | Register_protocol
  | Signal_protocol | Monitor_protocol | Remote_memory_protocol

fun attr_name :: "protocol_attr \<Rightarrow> string" where
  "attr_name Exec_protocol = ''_exec_protocol''"
| "attr_name Memory_protocol = ''_memory_protocol''"
| "attr_name Register_protocol = ''_register_protocol''"
| "attr_name Signal_protocol = ''_signal_protocol''"
| "attr_name Monitor_protocol = ''_monitor_protocol''"
| "attr_name Remote_memory_protocol = ''_remote_memory_protocol''"

fun getattr :: "'p Target \<Rightarrow> protocol_attr \<Rightarrow> 'p option" where
  "getattr t Exec_protocol = exec_protocol t"
| "getattr t Memory_protocol = memory_protocol t"
| "getattr t Register_protocol = register_protocol t"
| "getattr t Signal_protocol = signal_protocol t"
| "getattr t Monitor_protocol = monitor_protocol t"
| "getattr t Remote_memory_protocol = remote_memory_protocol t"

fun setattr :: "'p Target \<Rightarrow> protocol_attr \<Rightarrow> 'p option \<Rightarrow> 'p Target" where
  "setattr t Exec_protocol v = t\<lparr>exec_protocol := v\<rparr>"
| "setattr t Memory_protocol v = t\<lparr>memory_protocol := v\<rparr>"
| "setattr t Register_protocol v = t\<lparr>register_protocol := v\<rparr>"
| "setattr t Signal_protocol v = t\<lparr>signal_protocol := v\<rparr>"
| "setattr t Monitor_protocol v = t\<lparr>monitor_protocol := v\<rparr>"
| "setattr t Remote_memory_protocol v = t\<lparr>remote_memory_protocol := v\<rparr>"

text \<open>The protocol methods the facade calls, with the arguments it passes.\<close>

datatype call =
    Shutdown_call
  | Cont_call
  | Stop_call
  | Step_call
  | Write_memory_call val val val val val
  | Read_memory_call val val val val
  | Write_register_call val val
  | Read_register_call val
  | Set_breakpoint_call val val val val val val val
  | Set_watchpoint_call val val val
  | Remove_breakpoint_call val

record ('p, 'b) world =
  target :: "'p Target"
  backend :: 'b
  calls :: "('p \<times> call) list"
  log_lines :: "string list"

type_synonym ('p, 'b) protocols = "'p \<Rightarrow> call \<Rightarrow> 'p Target \<Rightarrow> 'b \<Rightarrow> (exn + val) \<times> 'b"

type_synonym ('p, 'b, 'r) operation = "('p, 'b) protocols \<Rightarrow> ('p, 'b) world \<Rightarrow> (exn + 'r) \<times> ('p, 'b) world"

text \<open>
  \<open>obj.meth(args)\<close> on the content of a slot: on \<open>None\<close> the attribute lookup
  fails; on an object the call is recorded and the protocol answers, with a
  value or with an exception, which reaches the caller as it is.
\<close>

definition call_method :: "'p option \<Rightarrow> string \<Rightarrow> call \<Rightarrow> ('p, 'b, val) operation" where
  "call_method obj meth c B w =
     (case obj of
        None \<Rightarrow> (Inl (AttributeError meth), w)
      | Some p \<Rightarrow>
          (case B p c (target w) (backend w) of
             (r, b') \<Rightarrow> (r, w\<lparr>backend := b', calls := calls w @ [(p, c)]\<rparr>)))"

text \<open>A parameter with a default value: \<open>None\<close> is "not passed".\<close>

definition default :: "val \<Rightarrow> val option \<Rightarrow> val" where
  "default d x = (case x of None \<Rightarrow> d | Some v \<Rightarrow> v)"

subsection \<open>The guard\<close>

text \<open>
  \<open>action_valid_decorator_factory(state, protocol)(func)\<close>; \<open>func.__name__\<close> is the
  third argument. A protocol object is an instance of a plain class, so it is
  not equal to \<open>None\<close> and it is true in a condition.
\<close>

definition action_valid_decorator_factory ::
  "TargetStates \<Rightarrow> protocol_attr \<Rightarrow> string \<Rightarrow> ('p, 'b, val) operation \<Rightarrow> ('p, 'b, val) operation" where
  "action_valid_decorator_factory st protocol func_name func B w =
     (if getattr (target w) protocol = None then
        (Inl (Exception (func_name @ ''() requested but '' @ attr_name protocol @ '' is undefined.'')), w)
      else if state (target w) \<noteq> st then
        (Inl (Exception (func_name @ ''() requested but Target is ''
                          @ TargetStates_name (state (target w)))), w)
      else func B w)"

subsection \<open>The guarded actions\<close>

definition clear_event :: "('p, 'b) world \<Rightarrow> ('p, 'b) world" where
  "clear_event w = w\<lparr>target := (target w)\<lparr>no_state_update_pending := False\<rparr>\<rparr>"

definition cont_body :: "('p, 'b, val) operation" where
  "cont_body B w =
     (let w1 = clear_event w
      in call_method (exec_protocol (target w1)) ''cont'' Cont_call B w1)"

definition cont :: "('p, 'b, val) operation" where
  "cont = action_valid_decorator_factory STOPPED Exec_protocol ''cont'' cont_body"

definition stop_body :: "('p, 'b, val) operation" where
  "stop_body B w =
     (let w1 = clear_event w
      in call_method (exec_protocol (target w1)) ''stop'' Stop_call B w1)"

definition stop :: "('p, 'b, val) operation" where
  "stop = action_valid_decorator_factory RUNNING Exec_protocol ''stop'' stop_body"

definition step_body :: "('p, 'b, val) operation" where
  "step_body B w =
     (let w1 = clear_event w
      in call_method (exec_protocol (target w1)) ''step'' Step_call B w1)"

definition step :: "('p, 'b, val) operation" where
  "step = action_valid_decorator_factory STOPPED Exec_protocol ''step'' step_body"

definition write_memory_body ::
  "val \<Rightarrow> val \<Rightarrow> val \<Rightarrow> val option \<Rightarrow> val option \<Rightarrow> ('p, 'b, val) operation" where
  "write_memory_body address size_w value num_words raw B w =
     call_method (memory_protocol (target w)) ''write_memory''
       (Write_memory_call address size_w value
          (default (Int_val 1) num_words) (default (Bool_val False) raw)) B w"

definition write_memory ::
  "val \<Rightarrow> val \<Rightarrow> val \<Rightarrow> val option \<Rightarrow> val option \<Rightarrow> ('p, 'b, val) operation" where
  "write_memory address size_w value num_words raw =
     action_valid_decorator_factory STOPPED Memory_protocol ''write_memory''
       (write_memory_body address size_w value num_words raw)"

definition read_memory_body ::
  "val \<Rightarrow> val \<Rightarrow> val option \<Rightarrow> val option \<Rightarrow> ('p, 'b, val) operation" where
  "read_memory_body address size_w words raw B w =
     call_method (memory_protocol (target w)) ''read_memory''
       (Read_memory_call address size_w
          (default (Int_val 1) words) (default (Bool_val False) raw)) B w"

definition read_memory ::
  "val \<Rightarrow> val \<Rightarrow> val option \<Rightarrow> val option \<Rightarrow> ('p, 'b, val) operation" where
  "read_memory address size_w words raw =
     action_valid_decorator_factory STOPPED Memory_protocol ''read_memory''
       (read_memory_body address size_w words raw)"

definition write_register_body :: "val \<Rightarrow> val \<Rightarrow> ('p, 'b, val) operation" where
  "write_register_body register value B w =
     call_method (register_protocol (target w)) ''write_register''
       (Write_register_call register value) B w"

definition write_register :: "val \<Rightarrow> val \<Rightarrow> ('p, 'b, val) operation" where
  "write_register register value =
     action_valid_decorator_factory STOPPED Register_protocol ''write_register''
       (write_register_body register value)"

definition read_register_body :: "val \<Rightarrow> ('p, 'b, val) operation" where
  "read_register_body register B w =
     call_method (register_protocol (target w)) ''read_register''
       (Read_register_call register) B w"

definition read_register :: "val \<Rightarrow> ('p, 'b, val) operation" where
  "read_register register =
     action_valid_decorator_factory STOPPED Register_protocol ''read_register''
       (read_register_body register)"

definition set_breakpoint_body ::
  "val \<Rightarrow> val option \<Rightarrow> val option \<Rightarrow> val option \<Rightarrow> val option \<Rightarrow> val option \<Rightarrow> val option
     \<Rightarrow> ('p, 'b, val) operation" where
  "set_breakpoint_body line hardware temporary regex condition ignore_count thread B w =
     call_method (exec_protocol (target w)) ''set_breakpoint''
       (Set_breakpoint_call line
          (default (Bool_val False) hardware) (default (Bool_val False) temporary)
          (default (Bool_val False) regex) (default None_val condition)
          (default (Int_val 0) ignore_count) (default (Int_val 0) thread)) B w"

definition set_breakpoint ::
  "val \<Rightarrow> val option \<Rightarrow> val option \<Rightarrow> val option \<Rightarrow> val option \<Rightarrow> val option \<Rightarrow> val option
     \<Rightarrow> ('p, 'b, val) operation" where
  "set_breakpoint line hardware temporary regex condition ignore_count thread =
     action_valid_decorator_factory STOPPED Exec_protocol ''set_breakpoint''
       (set_breakpoint_body line hardware temporary regex condition ignore_count thread)"

definition set_watchpoint_body ::
  "val \<Rightarrow> val option \<Rightarrow> val option \<Rightarrow> ('p, 'b, val) operation" where
  "set_watchpoint_body variable write read B w =
     call_method (exec_protocol (target w)) ''set_watchpoint''
       (Set_watchpoint_call variable
          (default (Bool_val True) write) (default (Bool_val False) read)) B w"

definition set_watchpoint ::
  "val \<Rightarrow> val option \<Rightarrow> val option \<Rightarrow> ('p, 'b, val) operation" where
  "set_watchpoint variable write read =
     action_valid_decorator_factory STOPPED Exec_protocol ''set_watchpoint''
       (set_watchpoint_body variable write read)"

definition remove_breakpoint_body :: "val \<Rightarrow> ('p, 'b, val) operation" where
  "remove_breakpoint_body bkptno B w =
     call_method (exec_protocol (target w)) ''remove_breakpoint''
       (Remove_breakpoint_call bkptno) B w"

definition remove_breakpoint :: "val \<Rightarrow> ('p, 'b, val) operation" where
  "remove_breakpoint bkptno =
     action_valid_decorator_factory STOPPED Exec_protocol ''remove_breakpoint''
       (remove_breakpoint_body bkptno)"

text \<open>The generic aliases at the end of the class: the same decorated functions under short names.\<close>

definition wr :: "val \<Rightarrow> val \<Rightarrow> ('p, 'b, val) operation" where
  "wr = write_register"

definition rr :: "val \<Rightarrow> ('p, 'b, val) operation" where
  "rr = read_register"

definition rm :: "val \<Rightarrow> val \<Rightarrow> val option \<Rightarrow> val option \<Rightarrow> ('p, 'b, val) operation" where
  "rm = read_memory"

definition wm ::
  "val \<Rightarrow> val \<Rightarrow> val \<Rightarrow> val option \<Rightarrow> val option \<Rightarrow> ('p, 'b, val) operation" where
  "wm = write_memory"

subsection \<open>Lifecycle: init, shutdown\<close>

definition init :: "('p, 'b) world \<Rightarrow> ('p, 'b) world" where
  "init w = w"

text \<open>
  One block of \<open>shutdown\<close>: \<open>if self.X: self.X.shutdown(); self.X = None\<close>.
  Nothing catches an exception of \<open>self.X.shutdown()\<close>: the assignment after it
  is not reached and the exception leaves \<open>shutdown\<close>.
\<close>

definition release :: "protocol_attr \<Rightarrow> ('p, 'b, unit) operation" where
  "release a B w =
     (if getattr (target w) a \<noteq> None then
        (case call_method (getattr (target w) a) ''shutdown'' Shutdown_call B w of
           (Inl e, w') \<Rightarrow> (Inl e, w')
         | (Inr r, w') \<Rightarrow> (Inr (), w'\<lparr>target := setattr (target w') a None\<rparr>))
      else (Inr (), w))"

text \<open>Statement after statement: the second runs in the world the first leaves, unless the first raised.\<close>

definition and_then :: "('p, 'b, unit) operation \<Rightarrow> ('p, 'b, 'r) operation \<Rightarrow> ('p, 'b, 'r) operation" where
  "and_then m k B w =
     (case m B w of
        (Inl e, w') \<Rightarrow> (Inl e, w')
      | (Inr u, w') \<Rightarrow> k B w')"

definition return_None :: "('p, 'b, val) operation" where
  "return_None B w = (Inr None_val, w)"

definition shutdown :: "('p, 'b, val) operation" where
  "shutdown =
     and_then (release Exec_protocol)
    (and_then (release Memory_protocol)
    (and_then (release Register_protocol)
    (and_then (release Signal_protocol)
    (and_then (release Monitor_protocol)
    (and_then (release Remote_memory_protocol)
     return_None)))))"

subsection \<open>State, event and status\<close>

definition update_state :: "TargetStates \<Rightarrow> ('p, 'b) world \<Rightarrow> ('p, 'b) world" where
  "update_state s w =
     w\<lparr>log_lines := log_lines w @ [''State changed to to '' @ TargetStates_str s],
       target := (target w)\<lparr>state := s, no_state_update_pending := True\<rparr>\<rparr>"

text \<open>
  \<open>wait\<close> is a loop without a bound, and it takes no lock. One round is
  \<open>Event.wait(.1)\<close>, which changes nothing itself, then the read of
  \<open>self.state\<close>, and, only if that was STOPPED, the read of the event. Other
  threads run meanwhile: what they do to the world in round \<open>n\<close> up to the
  read of the state is \<open>env n\<close>, what they do between the read of the state
  and the read of the event is \<open>mid n\<close>. The loop may run forever: the result
  \<open>None\<close> is "does not return".
\<close>

partial_function (option) wait ::
  "(nat \<Rightarrow> ('p, 'b) world \<Rightarrow> ('p, 'b) world) \<Rightarrow> (nat \<Rightarrow> ('p, 'b) world \<Rightarrow> ('p, 'b) world)
     \<Rightarrow> nat \<Rightarrow> ('p, 'b) world \<Rightarrow> ('p, 'b) world option" where
  "wait env mid n w =
     (let w1 = env n w
      in if state (target w1) = STOPPED then
           (let w2 = mid n w1
            in if no_state_update_pending (target w2) then Some w2
               else wait env mid (Suc n) w2)
         else wait env mid (Suc n) w1)"

definition get_status :: "('p, 'b) world \<Rightarrow> (string \<rightharpoonup> val) \<times> ('p, 'b) world" where
  "get_status w =
     (let st = (status (target w))(''state'' \<mapsto> State_val (state (target w)));
          w' = w\<lparr>target := (target w)\<lparr>status := st\<rparr>\<rparr>
      in (status (target w'), w'))"

subsection \<open>The table of guarded actions\<close>

text \<open>A request for one of the ten guarded methods, with its arguments.\<close>

datatype action =
    Cont
  | Stop
  | Step
  | Write_memory val val val "val option" "val option"
  | Read_memory val val "val option" "val option"
  | Write_register val val
  | Read_register val
  | Set_breakpoint val "val option" "val option" "val option" "val option" "val option" "val option"
  | Set_watchpoint val "val option" "val option"
  | Remove_breakpoint val

fun perform :: "action \<Rightarrow> ('p, 'b, val) operation" where
  "perform Cont = cont"
| "perform Stop = stop"
| "perform Step = step"
| "perform (Write_memory a s v n r) = write_memory a s v n r"
| "perform (Read_memory a s n r) = read_memory a s n r"
| "perform (Write_register r v) = write_register r v"
| "perform (Read_register r) = read_register r"
| "perform (Set_breakpoint l h t r c i th) = set_breakpoint l h t r c i th"
| "perform (Set_watchpoint v wt rd) = set_watchpoint v wt rd"
| "perform (Remove_breakpoint n) = remove_breakpoint n"

text \<open>The undecorated method of each request.\<close>

fun body :: "action \<Rightarrow> ('p, 'b, val) operation" where
  "body Cont = cont_body"
| "body Stop = stop_body"
| "body Step = step_body"
| "body (Write_memory a s v n r) = write_memory_body a s v n r"
| "body (Read_memory a s n r) = read_memory_body a s n r"
| "body (Write_register r v) = write_register_body r v"
| "body (Read_register r) = read_register_body r"
| "body (Set_breakpoint l h t r c i th) = set_breakpoint_body l h t r c i th"
| "body (Set_watchpoint v wt rd) = set_watchpoint_body v wt rd"
| "body (Remove_breakpoint n) = remove_breakpoint_body n"

text \<open>
  The specification's table of the actions (its section 4.3): the name, the
  required state and the required capability of each, written from the table
  and compared with the methods below.
\<close>

fun action_name :: "action \<Rightarrow> string" where
  "action_name Cont = ''cont''"
| "action_name Stop = ''stop''"
| "action_name Step = ''step''"
| "action_name (Write_memory a s v n r) = ''write_memory''"
| "action_name (Read_memory a s n r) = ''read_memory''"
| "action_name (Write_register r v) = ''write_register''"
| "action_name (Read_register r) = ''read_register''"
| "action_name (Set_breakpoint l h t r c i th) = ''set_breakpoint''"
| "action_name (Set_watchpoint v wt rd) = ''set_watchpoint''"
| "action_name (Remove_breakpoint n) = ''remove_breakpoint''"

fun required_state :: "action \<Rightarrow> TargetStates" where
  "required_state Stop = RUNNING"
| "required_state a = STOPPED"

fun required_capability :: "action \<Rightarrow> protocol_attr" where
  "required_capability Cont = Exec_protocol"
| "required_capability Stop = Exec_protocol"
| "required_capability Step = Exec_protocol"
| "required_capability (Write_memory a s v n r) = Memory_protocol"
| "required_capability (Read_memory a s n r) = Memory_protocol"
| "required_capability (Write_register r v) = Register_protocol"
| "required_capability (Read_register r) = Register_protocol"
| "required_capability (Set_breakpoint l h t r c i th) = Exec_protocol"
| "required_capability (Set_watchpoint v wt rd) = Exec_protocol"
| "required_capability (Remove_breakpoint n) = Exec_protocol"

text \<open>The two messages of the guard.\<close>

definition capability_unavailable :: "action \<Rightarrow> exn" where
  "capability_unavailable a =
     Exception (action_name a @ ''() requested but '' @ attr_name (required_capability a)
                @ '' is undefined.'')"

definition wrong_state :: "action \<Rightarrow> TargetStates \<Rightarrow> exn" where
  "wrong_state a actual =
     Exception (action_name a @ ''() requested but Target is '' @ TargetStates_name actual)"

text \<open>The slots in the order in which \<open>shutdown\<close> visits them.\<close>

definition slot_order :: "protocol_attr list" where
  "slot_order = [Exec_protocol, Memory_protocol, Register_protocol,
                 Signal_protocol, Monitor_protocol, Remote_memory_protocol]"

text \<open>
  What the specification's table says each action forwards to its capability
  (defaults filled in), and which actions clear the event first.
\<close>

fun forwarded_call :: "action \<Rightarrow> call" where
  "forwarded_call Cont = Cont_call"
| "forwarded_call Stop = Stop_call"
| "forwarded_call Step = Step_call"
| "forwarded_call (Write_memory a s v n r) =
     Write_memory_call a s v (default (Int_val 1) n) (default (Bool_val False) r)"
| "forwarded_call (Read_memory a s n r) =
     Read_memory_call a s (default (Int_val 1) n) (default (Bool_val False) r)"
| "forwarded_call (Write_register r v) = Write_register_call r v"
| "forwarded_call (Read_register r) = Read_register_call r"
| "forwarded_call (Set_breakpoint l h t r c i th) =
     Set_breakpoint_call l (default (Bool_val False) h) (default (Bool_val False) t)
       (default (Bool_val False) r) (default None_val c) (default (Int_val 0) i)
       (default (Int_val 0) th)"
| "forwarded_call (Set_watchpoint v wt rd) =
     Set_watchpoint_call v (default (Bool_val True) wt) (default (Bool_val False) rd)"
| "forwarded_call (Remove_breakpoint n) = Remove_breakpoint_call n"

fun clears_event :: "action \<Rightarrow> bool" where
  "clears_event Cont = True"
| "clears_event Stop = True"
| "clears_event Step = True"
| "clears_event a = False"

subsection \<open>Auxiliary notions for the proofs\<close>

text \<open>The blocks of \<open>shutdown\<close> for a list of slots, one after the other.\<close>

fun release_all :: "protocol_attr list \<Rightarrow> ('p, 'b, val) operation" where
  "release_all [] = return_None"
| "release_all (a # as) = and_then (release a) (release_all as)"

fun clear_slots :: "protocol_attr list \<Rightarrow> 'p Target \<Rightarrow> 'p Target" where
  "clear_slots [] t = t"
| "clear_slots (a # as) t = clear_slots as (setattr t a None)"

text \<open>The objects attached to the given slots, and one \<open>shutdown()\<close> call on each of them, in order.\<close>

definition attached :: "'p Target \<Rightarrow> protocol_attr list \<Rightarrow> 'p list" where
  "attached t as = List.map_filter (getattr t) as"

definition shutdown_calls :: "'p Target \<Rightarrow> protocol_attr list \<Rightarrow> ('p \<times> call) list" where
  "shutdown_calls t as = map (\<lambda>p. (p, Shutdown_call)) (attached t as)"

text \<open>
  Round \<open>n\<close> of \<open>wait\<close>, entered in world \<open>w\<close>: whether its two reads let the
  loop end, and the world in which the round ends.
\<close>

definition passes ::
  "(nat \<Rightarrow> ('p, 'b) world \<Rightarrow> ('p, 'b) world) \<Rightarrow> (nat \<Rightarrow> ('p, 'b) world \<Rightarrow> ('p, 'b) world)
     \<Rightarrow> nat \<Rightarrow> ('p, 'b) world \<Rightarrow> bool" where
  "passes env mid n w \<longleftrightarrow>
     state (target (env n w)) = STOPPED \<and> no_state_update_pending (target (mid n (env n w)))"

definition after_round ::
  "(nat \<Rightarrow> ('p, 'b) world \<Rightarrow> ('p, 'b) world) \<Rightarrow> (nat \<Rightarrow> ('p, 'b) world \<Rightarrow> ('p, 'b) world)
     \<Rightarrow> nat \<Rightarrow> ('p, 'b) world \<Rightarrow> ('p, 'b) world" where
  "after_round env mid n w =
     (if state (target (env n w)) = STOPPED then mid n (env n w) else env n w)"

text \<open>The world after the first \<open>k\<close> rounds of a waiter that entered at round \<open>n\<close>.\<close>

fun rounds ::
  "(nat \<Rightarrow> ('p, 'b) world \<Rightarrow> ('p, 'b) world) \<Rightarrow> (nat \<Rightarrow> ('p, 'b) world \<Rightarrow> ('p, 'b) world)
     \<Rightarrow> nat \<Rightarrow> nat \<Rightarrow> ('p, 'b) world \<Rightarrow> ('p, 'b) world" where
  "rounds env mid n 0 w = w"
| "rounds env mid n (Suc k) w = rounds env mid (Suc n) k (after_round env mid n w)"


subsection \<open>Concrete protocols and worlds\<close>

text \<open>
  \<open>probe\<close> answers every call with the value of the event it sees at that
  moment and counts its calls. \<open>failing\<close> raises in the \<open>shutdown()\<close> of object 1.
\<close>

definition probe :: "(nat, nat) protocols" where
  "probe p c t b = (Inr (Bool_val (no_state_update_pending t)), Suc b)"

definition failing :: "(nat, nat) protocols" where
  "failing p c t b =
     (if p = 1 \<and> c = Shutdown_call then (Inl (Protocol_error ''teardown failed''), Suc b)
      else (Inr None_val, Suc b))"

definition fresh_world :: "(nat, nat) world" where
  "fresh_world = \<lparr>target = Target_init ''t0'', backend = 0, calls = [], log_lines = []\<rparr>"

text \<open>Object 1 attached for execution, object 2 for memory; then reported stopped, then running.\<close>

definition stopped_world :: "(nat, nat) world" where
  "stopped_world =
     update_state STOPPED
       (fresh_world\<lparr>target := (target fresh_world)\<lparr>exec_protocol := Some 1, memory_protocol := Some 2\<rparr>\<rparr>)"

definition running_world :: "(nat, nat) world" where
  "running_world = update_state RUNNING stopped_world"

text \<open>Object 2 attached for execution and object 1 for memory; object 3 attached to three slots.\<close>

definition swapped_world :: "(nat, nat) world" where
  "swapped_world =
     update_state STOPPED
       (fresh_world\<lparr>target := (target fresh_world)\<lparr>exec_protocol := Some 2, memory_protocol := Some 1\<rparr>\<rparr>)"

definition shared_world :: "(nat, nat) world" where
  "shared_world =
     update_state STOPPED
       (fresh_world\<lparr>target := (target fresh_world)\<lparr>exec_protocol := Some 3, memory_protocol := Some 3,
                                                   register_protocol := Some 3\<rparr>\<rparr>)"





section \<open>Properties\<close>

subsection \<open>The guard\<close>

lemmas method_defs =
  cont_def stop_def step_def write_memory_def read_memory_def write_register_def
  read_register_def set_breakpoint_def set_watchpoint_def remove_breakpoint_def

lemmas body_defs =
  cont_body_def stop_body_def step_body_def write_memory_body_def read_memory_body_def
  write_register_body_def read_register_body_def set_breakpoint_body_def
  set_watchpoint_body_def remove_breakpoint_body_def

lemmas demo_defs =
  fresh_world_def stopped_world_def running_world_def swapped_world_def shared_world_def
  Target_init_def update_state_def probe_def failing_def

text \<open>Every method of the table is the guard, with the table's parameters, around its body.\<close>

lemma perform_guard:
  "perform a B w =
     action_valid_decorator_factory (required_state a) (required_capability a) (action_name a)
       (body a) B w"
  by (cases a) (simp_all add: method_defs)

text \<open>With the slot filled, the body is one call on the object in the slot.\<close>

lemma body_forward:
  "getattr (target w) (required_capability a) = Some p \<Longrightarrow>
   body a B w = call_method (Some p) (action_name a) (forwarded_call a) B
                  (if clears_event a then clear_event w else w)"
  by (cases a) (simp_all add: body_defs clear_event_def Let_def)

text \<open>
  C1. For each of the ten guarded actions the checks come in a fixed order:
  an empty capability slot gives the "is undefined" error whatever the state
  is; otherwise a state other than the required one gives the "Target is"
  error; otherwise the body of the action runs, and it runs as one call on
  the object found in the slot.
\<close>

theorem guard_order:
  "perform a B w =
     (case getattr (target w) (required_capability a) of
        None \<Rightarrow> (Inl (capability_unavailable a), w)
      | Some p \<Rightarrow>
          if state (target w) \<noteq> required_state a
          then (Inl (wrong_state a (state (target w))), w)
          else body a B w)
   \<and> (case getattr (target w) (required_capability a) of
        None \<Rightarrow> True
      | Some p \<Rightarrow>
          body a B w = call_method (Some p) (action_name a) (forwarded_call a) B
                         (if clears_event a then clear_event w else w))"
  by (simp add: perform_guard action_valid_decorator_factory_def capability_unavailable_def
      wrong_state_def body_forward split: option.split)

text \<open>
  C4. With the execution capability \<open>p\<close> attached and the target in the
  required state, \<open>cont\<close>, \<open>stop\<close> and \<open>step\<close> clear the event and then call
  \<open>p\<close>: the capability sees the target with the event already cleared, its
  answer (value or exception) is the answer of the action, and the world
  differs from the one before only in the cleared event, the capability's own
  state and the recorded call.
\<close>

theorem exec_actions_forward:
  assumes "a = Cont \<or> a = Stop \<or> a = Step"
    and "exec_protocol (target w) = Some p"
    and "state (target w) = required_state a"
  shows "perform a B w =
     (fst (B p (forwarded_call a) ((target w)\<lparr>no_state_update_pending := False\<rparr>) (backend w)),
      w\<lparr>target := (target w)\<lparr>no_state_update_pending := False\<rparr>,
        backend := snd (B p (forwarded_call a) ((target w)\<lparr>no_state_update_pending := False\<rparr>) (backend w)),
        calls := calls w @ [(p, forwarded_call a)]\<rparr>)"
  using assms
  by (auto simp add: perform_guard action_valid_decorator_factory_def body_defs
      call_method_def clear_event_def Let_def split: prod.split)

theorem exec_actions_forward_witness:
  "exec_protocol (target stopped_world) = Some 1
   \<and> state (target stopped_world) = required_state Cont
   \<and> no_state_update_pending (target stopped_world)
   \<and> fst (perform Cont probe stopped_world) = Inr (Bool_val False)
   \<and> snd (perform Cont probe stopped_world) =
       stopped_world\<lparr>target := (target stopped_world)\<lparr>no_state_update_pending := False\<rparr>,
                     backend := 1, calls := [(1, Cont_call)]\<rparr>"
  using exec_actions_forward [of Cont stopped_world 1 probe]
  by (simp add: demo_defs)

text \<open>
  C5. When the required capability is not attached, or the state is not the
  required one, a guarded action only raises: the world after it is the
  world before it (state, status, slots and event of the target, the
  capability's state, the record of calls), so no capability method has been
  called.
\<close>

theorem guard_failure_no_effect:
  assumes "getattr (target w) (required_capability a) = None
           \<or> state (target w) \<noteq> required_state a"
  shows "perform a B w =
     (Inl (if getattr (target w) (required_capability a) = None
           then capability_unavailable a
           else wrong_state a (state (target w))), w)"
  using assms
  by (auto simp add: perform_guard action_valid_decorator_factory_def
      capability_unavailable_def wrong_state_def)

theorem guard_failure_no_effect_witness:
  "getattr (target fresh_world) (required_capability Cont) = None
   \<and> perform Cont probe fresh_world =
       (Inl (Exception ''cont() requested but _exec_protocol is undefined.''), fresh_world)
   \<and> getattr (target running_world) (required_capability (Read_memory (Int_val 4096) (Int_val 4) None None))
       = Some 2
   \<and> state (target running_world) \<noteq> required_state (Read_memory (Int_val 4096) (Int_val 4) None None)
   \<and> perform (Read_memory (Int_val 4096) (Int_val 4) None None) probe running_world =
       (Inl (Exception ''read_memory() requested but Target is RUNNING''), running_world)"
  using guard_failure_no_effect [of fresh_world Cont probe]
    guard_failure_no_effect [of running_world "Read_memory (Int_val 4096) (Int_val 4) None None" probe]
  by (simp add: demo_defs capability_unavailable_def wrong_state_def)

subsection \<open>The message of the state check\<close>

lemma sublist_last_part: "sublist z (x @ y @ z)"
  using sublist_append_leftI [of z "x @ y"] by simp

lemma required_state_not_in_message:
  "s \<noteq> required_state a \<Longrightarrow>
   \<not> sublist (TargetStates_name (required_state a))
       (action_name a @ ''() requested but Target is '' @ TargetStates_name s)"
  by (cases a; cases s) (simp_all, code_simp+)

text \<open>
  C6 as stated asks that the error of the state check names the required
  state. It does not: \<open>step()\<close> on a running target with the execution
  capability attached raises \<open>step() requested but Target is RUNNING\<close>, and
  the required state, STOPPED, occurs nowhere in it.
\<close>

theorem wrong_state_message_omits_required_state:
  "getattr (target running_world) (required_capability Step) = Some 1
   \<and> required_state Step = STOPPED
   \<and> fst (step probe running_world) = Inl (Exception ''step() requested but Target is RUNNING'')
   \<and> \<not> sublist (TargetStates_name (required_state Step)) ''step() requested but Target is RUNNING''"
proof -
  have "\<not> sublist ''STOPPED'' ''step() requested but Target is RUNNING''"
    by code_simp
  then show ?thesis
    by (simp add: demo_defs step_def action_valid_decorator_factory_def)
qed

text \<open>
  C6, amended. With the required capability attached and the state not the
  required one, the error is the exception with the message
  \<open><action>() requested but Target is <actual state>\<close>: it names the action
  and the actual state, and the name of the required state is no part of it.
\<close>

theorem wrong_state_message:
  assumes "getattr (target w) (required_capability a) = Some p"
    and "state (target w) \<noteq> required_state a"
  shows "fst (perform a B w) =
           Inl (Exception (action_name a @ ''() requested but Target is ''
                            @ TargetStates_name (state (target w))))
   \<and> sublist (action_name a)
        (action_name a @ ''() requested but Target is '' @ TargetStates_name (state (target w)))
   \<and> sublist (TargetStates_name (state (target w)))
        (action_name a @ ''() requested but Target is '' @ TargetStates_name (state (target w)))
   \<and> \<not> sublist (TargetStates_name (required_state a))
        (action_name a @ ''() requested but Target is '' @ TargetStates_name (state (target w)))"
proof -
  have "fst (perform a B w) =
          Inl (Exception (action_name a @ ''() requested but Target is ''
                           @ TargetStates_name (state (target w))))"
    using assms by (simp add: perform_guard action_valid_decorator_factory_def)
  moreover have "sublist (action_name a)
        (action_name a @ ''() requested but Target is '' @ TargetStates_name (state (target w)))"
    by (rule sublist_append_rightI)
  moreover have "sublist (TargetStates_name (state (target w)))
        (action_name a @ ''() requested but Target is '' @ TargetStates_name (state (target w)))"
    by (rule sublist_last_part)
  moreover have "\<not> sublist (TargetStates_name (required_state a))
        (action_name a @ ''() requested but Target is '' @ TargetStates_name (state (target w)))"
    using assms(2) by (rule required_state_not_in_message)
  ultimately show ?thesis by blast
qed

theorem wrong_state_message_witness:
  "getattr (target running_world) (required_capability Cont) = Some 1
   \<and> state (target running_world) \<noteq> required_state Cont
   \<and> fst (perform Cont probe running_world) =
       Inl (Exception ''cont() requested but Target is RUNNING'')
   \<and> \<not> sublist ''STOPPED'' ''cont() requested but Target is RUNNING''"
  using wrong_state_message [of running_world Cont 1 probe]
  by (simp add: demo_defs)

subsection \<open>State and status\<close>

text \<open>
  C3. For every state \<open>s\<close>, \<open>update_state(s)\<close> makes \<open>s\<close> the state of the
  target and sets the event, and the mapping that \<open>get_status()\<close> returns
  next is the stored status mapping with \<open>s\<close> under the key \<open>state\<close>: every
  other key is as the caller left it.
\<close>

theorem update_state_then_get_status:
  "state (target (update_state s w)) = s
   \<and> no_state_update_pending (target (update_state s w))
   \<and> fst (get_status (update_state s w)) = (status (target w))(''state'' \<mapsto> State_val s)"
  by (simp add: update_state_def get_status_def Let_def)

text \<open>
  C9 as stated calls \<open>get_status()\<close> read-only. It writes: on a fresh target
  the stored status mapping has no key \<open>state\<close>, and after \<open>get_status()\<close> it
  has one.
\<close>

theorem get_status_writes_status:
  "status (target fresh_world) ''state'' = None
   \<and> status (target (snd (get_status fresh_world))) ''state'' = Some (State_val CREATED)
   \<and> snd (get_status fresh_world) \<noteq> fresh_world"
proof -
  have a: "status (target fresh_world) ''state'' = None"
    by (simp add: demo_defs)
  have b: "status (target (snd (get_status fresh_world))) ''state'' = Some (State_val CREATED)"
    by (simp add: demo_defs get_status_def Let_def)
  from a b have "snd (get_status fresh_world) \<noteq> fresh_world" by auto
  with a b show ?thesis by blast
qed

text \<open>
  C9, amended. \<open>get_status()\<close> returns the status mapping with the current
  state under the key \<open>state\<close>, and it stores that mapping as the status of the
  target. Nothing else changes: the other keys, the state, the slots and the
  event of the target, the capabilities and the record of calls stay as they
  are; a second \<open>get_status()\<close> returns the same and changes nothing any more.
\<close>

theorem get_status_effect:
  "get_status w =
     ((status (target w))(''state'' \<mapsto> State_val (state (target w))),
      w\<lparr>target := (target w)\<lparr>status := (status (target w))(''state'' \<mapsto> State_val (state (target w)))\<rparr>\<rparr>)
   \<and> get_status (snd (get_status w)) = get_status w"
  by (simp add: get_status_def Let_def)

subsection \<open>Shutdown\<close>

lemma shutdown_release_all: "shutdown = release_all slot_order"
  by (simp add: shutdown_def slot_order_def)

lemma distinct_slot_order: "distinct slot_order"
  by (simp add: slot_order_def)

lemma set_slot_order: "a \<in> set slot_order"
  by (cases a) (simp_all add: slot_order_def)

lemma getattr_setattr: "getattr (setattr t a v) x = (if x = a then v else getattr t x)"
  by (cases a; cases x) simp_all

lemma setattr_same: "getattr t a = None \<Longrightarrow> setattr t a None = t"
  by (cases a) simp_all

lemma getattr_clear_slots:
  "getattr (clear_slots as t) x = (if x \<in> set as then None else getattr t x)"
  by (induction as arbitrary: t) (auto simp: getattr_setattr)

lemma attached_setattr: "a \<notin> set as \<Longrightarrow> attached (setattr t a v) as = attached t as"
  by (induction as) (auto simp: attached_def getattr_setattr split: option.splits)

lemma shutdown_calls_Cons:
  "a \<notin> set as \<Longrightarrow>
   shutdown_calls t (a # as) = shutdown_calls t [a] @ shutdown_calls (setattr t a None) as"
  using attached_setattr [of a as t None]
  by (auto simp: shutdown_calls_def attached_def split: option.splits)

text \<open>One block, by what the slot holds and what the teardown answers.\<close>

lemma release_cases:
  "release a B w =
     (case getattr (target w) a of
        None \<Rightarrow> (Inr (), w)
      | Some p \<Rightarrow>
         (case B p Shutdown_call (target w) (backend w) of
            (Inl e, b') \<Rightarrow> (Inl e, w\<lparr>backend := b', calls := calls w @ [(p, Shutdown_call)]\<rparr>)
          | (Inr r, b') \<Rightarrow> (Inr (), w\<lparr>backend := b', calls := calls w @ [(p, Shutdown_call)],
                                     target := setattr (target w) a None\<rparr>)))"
  by (auto simp: release_def call_method_def split: option.split prod.split sum.split)

lemma release_Inr:
  "release a B w = (Inr u, w1) \<Longrightarrow>
     target w1 = setattr (target w) a None
     \<and> calls w1 = calls w @ shutdown_calls (target w) [a]"
  by (auto simp: release_cases shutdown_calls_def attached_def setattr_same
      split: option.splits prod.splits sum.splits)

lemma release_Inl:
  "release a B w = (Inl e, w1) \<Longrightarrow>
     \<exists>p. getattr (target w) a = Some p
       \<and> fst (B p Shutdown_call (target w) (backend w)) = Inl e
       \<and> target w1 = target w
       \<and> calls w1 = calls w @ [(p, Shutdown_call)]"
  by (auto simp: release_cases split: option.splits prod.splits sum.splits)

lemma and_then_Inr:
  "and_then m k B w = (Inr r, w') \<Longrightarrow> \<exists>u w1. m B w = (Inr u, w1) \<and> k B w1 = (Inr r, w')"
  by (auto simp: and_then_def split: prod.splits sum.splits)

text \<open>A run of blocks that ends normally has emptied its slots, with one teardown per attached slot.\<close>

lemma release_all_ok:
  "distinct as \<Longrightarrow> release_all as B w = (Inr r, w') \<Longrightarrow>
     r = None_val \<and> target w' = clear_slots as (target w)
     \<and> calls w' = calls w @ shutdown_calls (target w) as"
proof (induction as arbitrary: w)
  case Nil
  then show ?case by (auto simp: return_None_def shutdown_calls_def attached_def)
next
  case (Cons a as)
  from Cons.prems(2) obtain u w1 where r1: "release a B w = (Inr u, w1)"
    and r2: "release_all as B w1 = (Inr r, w')"
    using and_then_Inr [of "release a" "release_all as" B w r w'] by auto
  from Cons.prems(1) have d: "distinct as" and n: "a \<notin> set as" by auto
  from Cons.IH [OF d r2] release_Inr [OF r1] shutdown_calls_Cons [OF n, of "target w"]
  show ?case by simp
qed

lemma release_all_empty:
  "(\<And>a. a \<in> set as \<Longrightarrow> getattr (target w) a = None) \<Longrightarrow>
   release_all as B w = (Inr None_val, w)"
  by (induction as) (auto simp: return_None_def and_then_def release_def)

lemma perform_unattached:
  "getattr (target w) (required_capability a) = None \<Longrightarrow>
   perform a B w = (Inl (capability_unavailable a), w)"
  by (simp add: perform_guard action_valid_decorator_factory_def capability_unavailable_def)

lemmas shutdown_eval =
  shutdown_def and_then_def release_def call_method_def return_None_def


text \<open>A run of blocks ends normally when no teardown of an object in its slots raises.\<close>

lemma release_all_completes:
  assumes ok: "\<And>p t b. p \<in> P \<Longrightarrow> \<not> isl (fst (B p Shutdown_call t b))"
  shows "(\<And>a p. a \<in> set as \<Longrightarrow> getattr (target w) a = Some p \<Longrightarrow> p \<in> P) \<Longrightarrow>
         \<exists>w'. release_all as B w = (Inr None_val, w')"
proof (induction as arbitrary: w)
  case Nil
  then show ?case by (simp add: return_None_def)
next
  case (Cons a as)
  show ?case
  proof (cases "release a B w")
    case (Pair r w1)
    show ?thesis
    proof (cases r)
      case (Inl e)
      from release_Inl [of a B w e w1] Pair Inl obtain p where
        p: "getattr (target w) a = Some p"
          "fst (B p Shutdown_call (target w) (backend w)) = Inl e" by blast
      from Cons.prems [of a p] p(1) have "p \<in> P" by simp
      from ok [OF this, of "target w" "backend w"] p(2) show ?thesis by simp
    next
      case (Inr u)
      with Pair have r1: "release a B w = (Inr u, w1)" by simp
      from release_Inr [OF r1] have t1: "target w1 = setattr (target w) a None" by simp
      have "\<exists>w'. release_all as B w1 = (Inr None_val, w')"
      proof (rule Cons.IH)
        fix x p assume "x \<in> set as" "getattr (target w1) x = Some p"
        then show "p \<in> P"
          using Cons.prems by (auto simp: t1 getattr_setattr split: if_splits)
      qed
      then obtain w' where "release_all as B w1 = (Inr None_val, w')"
        by blast
      with r1 show ?thesis by (simp add: and_then_def)
    qed
  qed
qed

text \<open>
  C7 as stated has \<open>shutdown()\<close> empty every slot, leave every guarded action
  failing with the "is undefined" error, tear each capability down exactly
  once, and be repeatable without an error. With object 1 attached for
  execution and its \<open>shutdown()\<close> raising, \<open>shutdown()\<close> raises and leaves
  object 1 attached: \<open>cont()\<close> then passes the guard and is forwarded, a second
  \<open>shutdown()\<close> raises again and calls the teardown of object 1 a second time.
  And an object attached to three slots is torn down three times.
\<close>

theorem shutdown_raising_leaves_slots:
  "fst (shutdown failing stopped_world) = Inl (Protocol_error ''teardown failed'')
   \<and> exec_protocol (target (snd (shutdown failing stopped_world))) = Some 1
   \<and> fst (cont failing (snd (shutdown failing stopped_world))) = Inr None_val
   \<and> fst (shutdown failing (snd (shutdown failing stopped_world)))
       = Inl (Protocol_error ''teardown failed'')
   \<and> calls (snd (shutdown failing (snd (shutdown failing stopped_world))))
       = [(1, Shutdown_call), (1, Shutdown_call)]
   \<and> calls (snd (shutdown probe shared_world))
       = [(3, Shutdown_call), (3, Shutdown_call), (3, Shutdown_call)]"
  by (simp add: shutdown_eval demo_defs cont_def cont_body_def clear_event_def
      action_valid_decorator_factory_def Let_def)

text \<open>
  C7, amended. If no teardown of an attached capability raises, \<open>shutdown()\<close>
  returns normally. It has then called \<open>shutdown()\<close> once for every slot that
  held an object, in the order of the slots (an object attached to several
  slots is torn down once for each of them), has emptied every slot and has
  changed nothing else in the target. From then on every guarded action fails
  with the "is undefined" error, whatever the state is, and a second
  \<open>shutdown()\<close> returns normally, makes no call and changes nothing.
\<close>

theorem shutdown_releases_all:
  assumes "\<forall>a p. getattr (target w) a = Some p \<longrightarrow> (\<forall>t b. \<not> isl (fst (B p Shutdown_call t b)))"
  shows "fst (shutdown B w) = Inr None_val
      \<and> target (snd (shutdown B w)) = clear_slots slot_order (target w)
      \<and> (\<forall>a. getattr (target (snd (shutdown B w))) a = None)
      \<and> calls (snd (shutdown B w)) = calls w @ shutdown_calls (target w) slot_order
      \<and> (\<forall>act. perform act B (snd (shutdown B w))
                 = (Inl (capability_unavailable act), snd (shutdown B w)))
      \<and> shutdown B (snd (shutdown B w)) = (Inr None_val, snd (shutdown B w))"
proof -
  have "\<exists>w'. release_all slot_order B w = (Inr None_val, w')"
  proof (rule release_all_completes [where P = "{p. \<exists>a. getattr (target w) a = Some p}"])
    fix p t b assume "p \<in> {p. \<exists>a. getattr (target w) a = Some p}"
    with assms show "\<not> isl (fst (B p Shutdown_call t b))" by blast
  next
    fix a p assume "getattr (target w) a = Some p"
    then show "p \<in> {p. \<exists>a. getattr (target w) a = Some p}" by blast
  qed
  then obtain w' where sh: "release_all slot_order B w = (Inr None_val, w')" by blast
  then have w': "snd (shutdown B w) = w'" and f: "fst (shutdown B w) = Inr None_val"
    by (simp_all add: shutdown_release_all)
  from release_all_ok [OF distinct_slot_order sh]
  have t: "target w' = clear_slots slot_order (target w)"
    and c: "calls w' = calls w @ shutdown_calls (target w) slot_order" by simp_all
  have empty: "getattr (target w') a = None" for a
    by (simp add: t getattr_clear_slots set_slot_order)
  have "shutdown B w' = (Inr None_val, w')"
    using empty by (simp add: shutdown_release_all release_all_empty)
  with f t c empty show ?thesis
    unfolding w' by (simp add: perform_unattached)
qed

theorem shutdown_releases_all_witness:
  "fst (shutdown probe stopped_world) = Inr None_val
   \<and> exec_protocol (target (snd (shutdown probe stopped_world))) = None
   \<and> memory_protocol (target (snd (shutdown probe stopped_world))) = None
   \<and> state (target (snd (shutdown probe stopped_world))) = STOPPED
   \<and> calls (snd (shutdown probe stopped_world)) = [(1, Shutdown_call), (2, Shutdown_call)]
   \<and> perform (Read_register (Str_val ''pc'')) probe (snd (shutdown probe stopped_world))
       = (Inl (Exception ''read_register() requested but _register_protocol is undefined.''),
          snd (shutdown probe stopped_world))
   \<and> shutdown probe (snd (shutdown probe stopped_world))
       = (Inr None_val, snd (shutdown probe stopped_world))"
proof -
  have h: "\<forall>a p. getattr (target stopped_world) a = Some p
              \<longrightarrow> (\<forall>t b. \<not> isl (fst (probe p Shutdown_call t b)))"
    by (simp add: probe_def)
  note T = shutdown_releases_all [where w = stopped_world and B = probe, OF h]
  from T have e: "getattr (target (snd (shutdown probe stopped_world))) Exec_protocol = None"
    and m: "getattr (target (snd (shutdown probe stopped_world))) Memory_protocol = None"
    by blast+
  from T have p: "perform (Read_register (Str_val ''pc'')) probe (snd (shutdown probe stopped_world))
       = (Inl (capability_unavailable (Read_register (Str_val ''pc''))),
          snd (shutdown probe stopped_world))"
    by blast
  have c: "calls stopped_world @ shutdown_calls (target stopped_world) slot_order
             = [(1, Shutdown_call), (2, Shutdown_call)]"
    by (simp add: demo_defs shutdown_calls_def attached_def slot_order_def)
  have s: "state (clear_slots slot_order (target stopped_world)) = STOPPED"
    by (simp add: demo_defs slot_order_def)
  from T e m p c s show ?thesis
    by (simp add: capability_unavailable_def)
qed




subsection \<open>Waiting\<close>


lemma rounds_shift:
  "rounds env mid (Suc n) k (after_round env mid n w) = rounds env mid n (Suc k) w"
  by simp

lemma wait_unfold:
  "wait env mid n w =
     (if passes env mid n w then Some (mid n (env n w))
      else wait env mid (Suc n) (after_round env mid n w))"
  by (subst wait.simps) (simp add: passes_def after_round_def Let_def)













text \<open>
  C10. \<open>update_state(s)\<close> checks nothing: for every \<open>s\<close> and every current
  state, \<open>s\<close> itself included, it stores \<open>s\<close> and sets the event, and changes
  nothing else in the target. So a \<open>wait()\<close> entered right after an
  \<open>update_state(STOPPED)\<close>, with no other thread acting during its first
  round, returns in that round, whether or not the event had been cleared
  before.
\<close>

theorem update_state_unconditional:
  "target (update_state s w) = (target w)\<lparr>state := s, no_state_update_pending := True\<rparr>
   \<and> wait (env(n := id)) (mid(n := id)) n (update_state STOPPED w) = Some (update_state STOPPED w)"
  by (subst wait_unfold) (simp add: update_state_def passes_def)

end
